theory Spec2Isabelle
  imports Complex_Main "HOL-Library.Log_Nat"
begin

section \<open>Stock location orderpoints: data model\<close>

text \<open>
  The model follows \<^verbatim>\<open>stock_location_orderpoint/models/stock_location_orderpoint.py\<close>.
  Records of the ORM are identified by their database id. Quantities are Python floats,
  that is, binary floating-point numbers of 53 significant bits: they are rationals, and
  the result of an addition or a subtraction is rounded to the nearest such number.
\<close>

type_synonym location = nat

text \<open>A \<^verbatim>\<open>product.product\<close> record; the only attribute read by the orderpoint code is
  \<^verbatim>\<open>product.uom_id.rounding\<close>.\<close>

record product =
  product_id :: nat
  uom_rounding :: rat

text \<open>A \<^verbatim>\<open>stock.rule\<close>: \<^verbatim>\<open>location_id\<close> is the rule's destination location.\<close>

record stock_rule =
  rule_id :: nat
  rule_location_id :: location

record route =
  route_display_name :: string
  rule_ids :: "stock_rule list"

text \<open>The stored fields of \<^verbatim>\<open>stock.location.orderpoint\<close>. An unset many2one
  (\<^verbatim>\<open>route_id\<close>, \<^verbatim>\<open>location_src_id\<close>, \<^verbatim>\<open>group_id\<close>) is an empty recordset in the
  source and \<open>None\<close> here; \<^verbatim>\<open>location_id\<close> is a required field.\<close>

record orderpoint =
  orderpoint_id :: nat
  name :: string
  company_id :: nat
  location_id :: location
  trigger :: string
  replenish_method :: string
  sequence :: int
  route_id :: "route option"
  group_id :: "nat option"
  location_src_id :: "location option"
  priority :: string

text \<open>The entries of the dictionary returned by \<^verbatim>\<open>_product_available\<close> that the
  orderpoint code reads.\<close>

record qties =
  virtual_available :: rat
  incoming_qty :: rat

datatype error =
    KeyError
  | ValidationError string location

type_synonym qties_on_locations = "location \<rightharpoonup> (product \<rightharpoonup> qties)"

section \<open>Python floats\<close>

text \<open>
  \<open>exponent x\<close> is the binary exponent of a non-zero \<open>x\<close>, the integer \<open>e\<close> with
  \<open>2^e \<le> \<bar>x\<bar> < 2^(e+1)\<close>. \<open>double x\<close> rounds \<open>x\<close> to 53 significant bits, ties to the
  even neighbour, as the machine does after each operation. Overflow and subnormal numbers
  are left out: the exponent is unbounded. \<^verbatim>\<open>abs\<close>, \<^verbatim>\<open>min\<close> and comparisons are exact.
\<close>

definition exponent :: "rat \<Rightarrow> int" where
  "exponent x =
     (if 1 \<le> \<bar>x\<bar> then bitlen \<lfloor>\<bar>x\<bar>\<rfloor> - 1 else - bitlen (\<lceil>1 / \<bar>x\<bar>\<rceil> - 1))"

definition round_half_even :: "rat \<Rightarrow> int" where
  "round_half_even x =
     (let n = \<lfloor>x\<rfloor>; f = x - of_int n
      in if f < 1 / 2 then n else if 1 / 2 < f then n + 1 else if even n then n else n + 1)"

definition double :: "rat \<Rightarrow> rat" where
  "double x =
     (if x = 0 then 0
      else let e = exponent x - 52
           in if 0 \<le> e then of_int (round_half_even (x / 2 ^ nat e)) * 2 ^ nat e
              else of_int (round_half_even (x * 2 ^ nat (- e))) / 2 ^ nat (- e))"

definition float_add :: "rat \<Rightarrow> rat \<Rightarrow> rat" where
  "float_add a b = double (a + b)"

definition float_sub :: "rat \<Rightarrow> rat \<Rightarrow> rat" where
  "float_sub a b = double (a - b)"

section \<open>Float comparison of the framework\<close>

text \<open>
  \<^verbatim>\<open>float_compare\<close> comes from \<^verbatim>\<open>odoo.tools\<close>. It rounds both values to a multiple of
  \<^verbatim>\<open>precision_rounding\<close>, ties away from zero, and compares the rounded values. The
  definitions below are that function with its own arithmetic exact: the error of its
  division and multiplication, and the small epsilon the framework adds against it
  before rounding, have no counterpart here. The rounding passed by the orderpoint code
  is always the rounding of a unit of measure, which the framework constrains to be
  strictly positive; the properties that depend on the comparison assume a positive
  rounding.
\<close>

definition round_half_away :: "rat \<Rightarrow> int" where
  "round_half_away x = (if x < 0 then - \<lfloor>- x + 1 / 2\<rfloor> else \<lfloor>x + 1 / 2\<rfloor>)"

definition float_round :: "rat \<Rightarrow> rat \<Rightarrow> rat" where
  "float_round v r =
     (if r = 0 \<or> v = 0 then 0 else of_int (round_half_away (v / r)) * r)"

definition float_is_zero :: "rat \<Rightarrow> rat \<Rightarrow> bool" where
  "float_is_zero v r \<longleftrightarrow> \<bar>float_round v r\<bar> < r"

definition float_compare :: "rat \<Rightarrow> rat \<Rightarrow> rat \<Rightarrow> int" where
  "float_compare value1 value2 r =
     (let delta = float_round value1 r - float_round value2 r
      in if float_is_zero delta r then 0 else if delta < 0 then - 1 else 1)"

section \<open>Quantity to replenish\<close>

text \<open>\<^verbatim>\<open>qties_on_locations[location][product]\<close>: both subscripts raise \<^verbatim>\<open>KeyError\<close> on a
  missing key.\<close>

definition lookup_qties :: "qties_on_locations \<Rightarrow> location \<Rightarrow> product \<Rightarrow> error + qties" where
  "lookup_qties qties_on_locations loc p =
     (case qties_on_locations loc of
        None \<Rightarrow> Inl KeyError
      | Some on_location \<Rightarrow>
          (case on_location p of None \<Rightarrow> Inl KeyError | Some q \<Rightarrow> Inr q))"

definition get_qty_to_replenish_fill_up ::
  "orderpoint \<Rightarrow> product \<Rightarrow> qties_on_locations \<Rightarrow> rat \<Rightarrow> error + rat" where
  "get_qty_to_replenish_fill_up self p qties_on_locations qty_already_replenished =
     (case location_src_id self of
        None \<Rightarrow> Inr 0
      | Some src \<Rightarrow>
          (case lookup_qties qties_on_locations (location_id self) p of
             Inl e \<Rightarrow> Inl e
           | Inr qties_on_dest \<Rightarrow>
               if float_compare (virtual_available qties_on_dest) 0 (uom_rounding p) \<ge> 0
               then Inr 0
               else
                 (case lookup_qties qties_on_locations src p of
                    Inl e \<Rightarrow> Inl e
                  | Inr qties_on_src \<Rightarrow>
                      let virtual_available_on_dest = \<bar>virtual_available qties_on_dest\<bar>;
                          virtual_available_on_src =
                            float_sub (virtual_available qties_on_src) (incoming_qty qties_on_src)
                      in if float_compare virtual_available_on_src 0 (uom_rounding p) \<le> 0
                         then Inr 0
                         else Inr (min (float_sub virtual_available_on_dest
                                          qty_already_replenished)
                                       virtual_available_on_src))))"

definition get_qty_to_replenish ::
  "orderpoint \<Rightarrow> product \<Rightarrow> qties_on_locations \<Rightarrow> rat \<Rightarrow> error + rat" where
  "get_qty_to_replenish self p qties_on_locations qty_already_replenished =
     (if replenish_method self = ''fill_up''
      then get_qty_to_replenish_fill_up self p qties_on_locations qty_already_replenished
      else Inr 0)"

text \<open>The computed field \<^verbatim>\<open>location_src_id\<close>. The parameter stands for
  \<^verbatim>\<open>_get_source_location_from_route\<close> of \<^verbatim>\<open>stock.location\<close>, which another module
  provides.\<close>

definition compute_location_src_id ::
  "(location \<Rightarrow> route \<Rightarrow> string \<Rightarrow> location option) \<Rightarrow> orderpoint \<Rightarrow> orderpoint" where
  "compute_location_src_id get_source_location_from_route ordp =
     ordp\<lparr>location_src_id :=
       (case route_id ordp of
          None \<Rightarrow> None
        | Some r \<Rightarrow> get_source_location_from_route (location_id ordp) r ''make_to_stock'')\<rparr>"

section \<open>Quantities to replenish for a recordset of orderpoints\<close>

record stock_move =
  move_id :: nat
  move_product_id :: product

text \<open>\<^verbatim>\<open>moves_by_location\<close> is a dictionary from a location to the recordset of its waiting
  moves; it is iterated, so it is an association list.\<close>

type_synonym moves_by_location = "(location \<times> stock_move list) list"

text \<open>\<^verbatim>\<open>moves.product_id\<close>: the products of a recordset of moves, each once, in the order of
  their first move.\<close>

definition products_of :: "stock_move list \<Rightarrow> product list" where
  "products_of moves = rev (remdups (rev (map move_product_id moves)))"

text \<open>\<^verbatim>\<open>self.location_id | self.location_src_id\<close>\<close>

definition locations_of :: "orderpoint list \<Rightarrow> location list" where
  "locations_of self = remdups (map location_id self @ List.map_filter location_src_id self)"

text \<open>The parameter \<open>product_available\<close> stands for the framework's
  \<^verbatim>\<open>products.with_context(location=location.id)._product_available()\<close>, which has an entry
  for every product of the recordset.\<close>

definition compute_quantities_dict ::
  "(location \<Rightarrow> product \<Rightarrow> qties) \<Rightarrow> location list \<Rightarrow> product list \<Rightarrow> qties_on_locations" where
  "compute_quantities_dict product_available locations products =
     fold (\<lambda>location qties.
             let qties_on_location =
                   (case qties location of None \<Rightarrow> Map.empty | Some on_location \<Rightarrow> on_location)
             in qties(location \<mapsto>
                  fold (\<lambda>p on_location. on_location(p \<mapsto> product_available location p))
                    products qties_on_location))
       locations Map.empty"

text \<open>The two dictionaries of the loop: \<^verbatim>\<open>qties_replenished\<close> is a
  \<^verbatim>\<open>defaultdict\<close> of \<^verbatim>\<open>defaultdict\<close>s with default 0, a total function;
  \<^verbatim>\<open>qties_to_replenish\<close> is a \<^verbatim>\<open>defaultdict(list)\<close> that is iterated later, an
  association list in insertion order.\<close>

record replenish_state =
  qties_replenished :: "location \<Rightarrow> product \<Rightarrow> rat"
  qties_to_replenish :: "(orderpoint \<times> (product \<times> rat) list) list"

text \<open>\<^verbatim>\<open>d[key].append(v)\<close> on a \<^verbatim>\<open>defaultdict(list)\<close>\<close>

fun append_to :: "'k \<Rightarrow> 'v \<Rightarrow> ('k \<times> 'v list) list \<Rightarrow> ('k \<times> 'v list) list" where
  "append_to k v [] = [(k, [v])]"
| "append_to k v ((k', vs) # rest) =
     (if k = k' then (k', vs @ [v]) # rest else (k', vs) # append_to k v rest)"

definition initial_state :: replenish_state where
  "initial_state = \<lparr>qties_replenished = (\<lambda>_ _. 0), qties_to_replenish = []\<rparr>"

text \<open>The body of the inner loop of \<^verbatim>\<open>_get_qties_to_replenish\<close>.\<close>

definition replenish_product ::
  "qties_on_locations \<Rightarrow> orderpoint \<Rightarrow> product \<Rightarrow> replenish_state \<Rightarrow> error + replenish_state" where
  "replenish_product qties_on_locations ordp p st =
     (case get_qty_to_replenish ordp p qties_on_locations
             (qties_replenished st (location_id ordp) p) of
        Inl e \<Rightarrow> Inl e
      | Inr qty_to_replenish \<Rightarrow>
          if float_compare qty_to_replenish 0 (uom_rounding p) > 0
          then Inr \<lparr>qties_replenished =
                      (qties_replenished st)
                        (location_id ordp :=
                           (qties_replenished st (location_id ordp))
                             (p := float_add (qties_replenished st (location_id ordp) p)
                                     qty_to_replenish)),
                    qties_to_replenish =
                      append_to ordp (p, qty_to_replenish) (qties_to_replenish st)\<rparr>
          else Inr st)"

fun product_loop ::
  "qties_on_locations \<Rightarrow> orderpoint \<Rightarrow> product list \<Rightarrow> replenish_state \<Rightarrow> error + replenish_state" where
  "product_loop qties_on_locations ordp [] st = Inr st"
| "product_loop qties_on_locations ordp (p # ps) st =
     (case replenish_product qties_on_locations ordp p st of
        Inl e \<Rightarrow> Inl e
      | Inr st' \<Rightarrow> product_loop qties_on_locations ordp ps st')"

fun orderpoint_loop ::
  "qties_on_locations \<Rightarrow> moves_by_location \<Rightarrow> orderpoint list \<Rightarrow> replenish_state
     \<Rightarrow> error + replenish_state" where
  "orderpoint_loop qties_on_locations mbl [] st = Inr st"
| "orderpoint_loop qties_on_locations mbl (ordp # rest) st =
     (case map_of mbl (location_id ordp) of
        None \<Rightarrow> orderpoint_loop qties_on_locations mbl rest st
      | Some moves \<Rightarrow>
          (case product_loop qties_on_locations ordp (products_of moves) st of
             Inl e \<Rightarrow> Inl e
           | Inr st' \<Rightarrow> orderpoint_loop qties_on_locations mbl rest st'))"

definition all_products :: "moves_by_location \<Rightarrow> product list" where
  "all_products mbl = remdups (concat (map (\<lambda>(loc, moves). products_of moves) mbl))"

definition quantities_for ::
  "(location \<Rightarrow> product \<Rightarrow> qties) \<Rightarrow> orderpoint list \<Rightarrow> moves_by_location \<Rightarrow> qties_on_locations" where
  "quantities_for product_available self mbl =
     compute_quantities_dict product_available (locations_of self) (all_products mbl)"

definition get_qties_to_replenish ::
  "(location \<Rightarrow> product \<Rightarrow> qties) \<Rightarrow> orderpoint list \<Rightarrow> moves_by_location
     \<Rightarrow> error + (orderpoint \<times> (product \<times> rat) list) list" where
  "get_qties_to_replenish product_available self mbl =
     (case orderpoint_loop (quantities_for product_available self mbl) mbl self initial_state of
        Inl e \<Rightarrow> Inl e
      | Inr st \<Rightarrow> Inr (qties_to_replenish st))"

text \<open>The iterations of the two nested loops, in the order in which they run, and the
  state reached after a sequence of iterations.\<close>

definition iterations :: "moves_by_location \<Rightarrow> orderpoint list \<Rightarrow> (orderpoint \<times> product) list" where
  "iterations mbl self =
     concat (map (\<lambda>ordp. case map_of mbl (location_id ordp) of
                            None \<Rightarrow> []
                          | Some moves \<Rightarrow> map (Pair ordp) (products_of moves)) self)"

fun run_iterations ::
  "qties_on_locations \<Rightarrow> (orderpoint \<times> product) list \<Rightarrow> replenish_state \<Rightarrow> error + replenish_state" where
  "run_iterations qties_on_locations [] st = Inr st"
| "run_iterations qties_on_locations ((ordp, p) # its) st =
     (case replenish_product qties_on_locations ordp p st of
        Inl e \<Rightarrow> Inl e
      | Inr st' \<Rightarrow> run_iterations qties_on_locations its st')"


subsection \<open>Invariants of the replenishment loop\<close>






text \<open>An iteration is covered by the dictionary of quantities when the dictionary holds the
  framework's quantities of the product at the orderpoint's location and at its source
  location, and the product's rounding is positive.\<close>

definition covered ::
  "qties_on_locations \<Rightarrow> (location \<Rightarrow> product \<Rightarrow> qties) \<Rightarrow> orderpoint \<Rightarrow> product \<Rightarrow> bool" where
  "covered qties_on_locations available ordp p \<longleftrightarrow>
     lookup_qties qties_on_locations (location_id ordp) p
       = Inr (available (location_id ordp) p)
     \<and> (case location_src_id ordp of
          None \<Rightarrow> True
        | Some src \<Rightarrow> lookup_qties qties_on_locations src p = Inr (available src p))
     \<and> 0 < uom_rounding p"

section \<open>The constraint on location and route\<close>

fun check_location_id_route_id :: "orderpoint list \<Rightarrow> error + unit" where
  "check_location_id_route_id [] = Inr ()"
| "check_location_id_route_id (ordp # rest) =
     (case route_id ordp of
        None \<Rightarrow> check_location_id_route_id rest
      | Some r \<Rightarrow>
          if location_id ordp \<in> set (map rule_location_id (rule_ids r))
          then check_location_id_route_id rest
          else Inl (ValidationError (route_display_name r) (location_id ordp)))"

section \<open>Running the replenishment\<close>

text \<open>Search domains of the ORM, as the orderpoint code builds them.\<close>

datatype domain_value = Ids "nat list" | Str string | Strs "string list" | Flag bool

datatype domain =
    Term string string domain_value
  | Not_domain domain
  | And_domain "domain list"
  | Or_domain "domain list"

record procurement_values =
  route_ids :: "route option"
  warehouse_id :: "nat option"
  procurement_group_id :: "nat option"
  procurement_priority :: string
  location_orderpoint_id :: nat
  date_planned :: "nat option"

record procurement =
  procurement_product :: product
  procurement_qty :: rat
  procurement_location_id :: location
  procurement_name :: string
  procurement_origin :: string
  procurement_company_id :: nat
  procurement_vals :: procurement_values

text \<open>
  What the orderpoint code asks of the framework. The queries read the database
  \<open>'db\<close>; \<open>procurement_run\<close> (\<^verbatim>\<open>procurement.group.run\<close>) and \<open>action_assign\<close>
  (\<^verbatim>\<open>stock.move._action_assign\<close>) change it. \<open>replenishment_date\<close> is
  \<^verbatim>\<open>_get_location_orderpoint_replenishment_date\<close> of the moves, \<open>closest_warehouse\<close> is
  \<^verbatim>\<open>get_closest_warehouse\<close> of a location, \<open>sorted_orderpoints\<close> is \<^verbatim>\<open>self.sorted()\<close>.
\<close>

record 'db orm =
  search_orderpoints :: "'db \<Rightarrow> domain \<Rightarrow> orderpoint list"
  read_group_moves :: "'db \<Rightarrow> domain \<Rightarrow> moves_by_location"
  search_moves :: "'db \<Rightarrow> domain \<Rightarrow> string \<Rightarrow> nat list"
  product_available :: "'db \<Rightarrow> location \<Rightarrow> product \<Rightarrow> qties"
  sorted_orderpoints :: "orderpoint list \<Rightarrow> orderpoint list"
  closest_warehouse :: "'db \<Rightarrow> location \<Rightarrow> nat option"
  replenishment_date :: "'db \<Rightarrow> stock_move list \<Rightarrow> product \<Rightarrow> nat option"
  datetime_now :: "'db \<Rightarrow> nat"
  procurement_run :: "procurement list \<Rightarrow> 'db \<Rightarrow> 'db"
  action_assign :: "nat list \<Rightarrow> 'db \<Rightarrow> 'db"

text \<open>The calls that change the database, in the order in which they are made.\<close>

datatype orm_call = Procurement_run "procurement list" | Action_assign "nat list"

record 'db env =
  database :: 'db
  calls :: "orm_call list"

definition prepare_procurement ::
  "'db orm \<Rightarrow> 'db \<Rightarrow> orderpoint \<Rightarrow> product \<Rightarrow> rat \<Rightarrow> nat option \<Rightarrow> procurement_values
     \<Rightarrow> procurement" where
  "prepare_procurement fw db self p qty planned proc_vals =
     \<lparr>procurement_product = p,
      procurement_qty = qty,
      procurement_location_id = location_id self,
      procurement_name = name self,
      procurement_origin = name self,
      procurement_company_id = company_id self,
      procurement_vals =
        proc_vals\<lparr>date_planned :=
          (case planned of None \<Rightarrow> Some (datetime_now fw db) | Some d \<Rightarrow> Some d)\<rparr>\<rparr>"

definition prepare_procurement_values :: "'db orm \<Rightarrow> 'db \<Rightarrow> orderpoint \<Rightarrow> procurement_values" where
  "prepare_procurement_values fw db self =
     \<lparr>route_ids = route_id self,
      warehouse_id = closest_warehouse fw db (location_id self),
      procurement_group_id = group_id self,
      procurement_priority = (if priority self = [] then ''0'' else priority self),
      location_orderpoint_id = orderpoint_id self,
      date_planned = None\<rparr>"

definition get_waiting_move_domain :: "orderpoint list \<Rightarrow> domain" where
  "get_waiting_move_domain self =
     (let domain =
            And_domain
              [Term ''state'' ''in'' (Strs [''confirmed'', ''partially_available'']),
               Term ''move_orig_ids'' ''='' (Flag False),
               Term ''procure_method'' ''='' (Str ''make_to_stock'')];
          location_domains =
            map (\<lambda>ordp.
                   And_domain
                     [Term ''location_id'' ''child_of'' (Ids [location_id ordp]),
                      Not_domain (Term ''location_dest_id'' ''child_of'' (Ids [location_id ordp]))])
              self
      in if location_domains \<noteq> [] then And_domain [domain, Or_domain location_domains]
         else domain)"

text \<open>An empty list of products stands for both \<^verbatim>\<open>False\<close> and an empty recordset.\<close>

definition find_potential_moves_to_replenish_by_location ::
  "'db orm \<Rightarrow> 'db \<Rightarrow> orderpoint list \<Rightarrow> product list \<Rightarrow> moves_by_location" where
  "find_potential_moves_to_replenish_by_location fw db self products =
     (let domain = get_waiting_move_domain self;
          domain' =
            (if products \<noteq> []
             then And_domain [domain, Term ''product_id'' ''in'' (Ids (map product_id products))]
             else domain)
      in read_group_moves fw db domain')"

definition sort_orderpoints :: "'db orm \<Rightarrow> orderpoint list \<Rightarrow> orderpoint list" where
  "sort_orderpoints fw self = sorted_orderpoints fw self"

text \<open>A loop that appends one result per element and stops at the first exception.\<close>

fun map_result :: "('a \<Rightarrow> error + 'b) \<Rightarrow> 'a list \<Rightarrow> error + 'b list" where
  "map_result f [] = Inr []"
| "map_result f (x # xs) =
     (case f x of
        Inl e \<Rightarrow> Inl e
      | Inr y \<Rightarrow> (case map_result f xs of Inl e \<Rightarrow> Inl e | Inr ys \<Rightarrow> Inr (y # ys)))"

text \<open>The procurements of one orderpoint; \<^verbatim>\<open>moves_by_location[orderpoint.location_id]\<close>
  raises \<^verbatim>\<open>KeyError\<close> on a missing key.\<close>

definition procurements_of ::
  "'db orm \<Rightarrow> 'db \<Rightarrow> moves_by_location \<Rightarrow> orderpoint \<times> (product \<times> rat) list
     \<Rightarrow> error + procurement list" where
  "procurements_of fw db mbl entry =
     (case entry of (ordp, to_replenish) \<Rightarrow>
        let proc_vals = prepare_procurement_values fw db ordp
        in map_result
             (\<lambda>(p, qty).
                case map_of mbl (location_id ordp) of
                  None \<Rightarrow> Inl KeyError
                | Some moves \<Rightarrow>
                    Inr (prepare_procurement fw db ordp p qty
                           (replenishment_date fw db moves p) proc_vals))
             to_replenish)"

definition collect_procurements ::
  "'db orm \<Rightarrow> 'db \<Rightarrow> moves_by_location \<Rightarrow> (orderpoint \<times> (product \<times> rat) list) list
     \<Rightarrow> error + procurement list" where
  "collect_procurements fw db mbl entries =
     (case map_result (procurements_of fw db mbl) entries of
        Inl e \<Rightarrow> Inl e
      | Inr procurements \<Rightarrow> Inr (concat procurements))"

text \<open>\<^verbatim>\<open>__prepare_procurements\<close>, the private method on the sorted orderpoints\<close>

definition prepare_procurements_sorted ::
  "'db orm \<Rightarrow> 'db \<Rightarrow> orderpoint list \<Rightarrow> moves_by_location \<Rightarrow> error + procurement list" where
  "prepare_procurements_sorted fw db self mbl =
     (case get_qties_to_replenish (product_available fw db) self mbl of
        Inl e \<Rightarrow> Inl e
      | Inr qties_to_replenish_by_orderpoint \<Rightarrow>
          collect_procurements fw db mbl qties_to_replenish_by_orderpoint)"

definition prepare_procurements ::
  "'db orm \<Rightarrow> 'db \<Rightarrow> orderpoint list \<Rightarrow> product list \<Rightarrow> error + procurement list" where
  "prepare_procurements fw db self products =
     (let mbl = find_potential_moves_to_replenish_by_location fw db self products
      in prepare_procurements_sorted fw db (sort_orderpoints fw self) mbl)"

definition prepare_to_assign_replenishment_move_domain :: "orderpoint list \<Rightarrow> domain" where
  "prepare_to_assign_replenishment_move_domain self =
     And_domain
       [Term ''state'' ''in'' (Strs [''confirmed'', ''partially_available'']),
        Term ''procure_method'' ''='' (Str ''make_to_stock''),
        Term ''location_orderpoint_id'' ''in'' (Ids (map orderpoint_id self))]"

text \<open>\<^verbatim>\<open>split_every(n, ids)\<close> of \<^verbatim>\<open>odoo.tools\<close>: consecutive pieces of at most \<open>n\<close> elements.\<close>

function split_every :: "nat \<Rightarrow> 'a list \<Rightarrow> 'a list list" where
  "split_every n xs =
     (if n = 0 \<or> xs = [] then [] else take n xs # split_every n (drop n xs))"
  by pat_completeness auto
termination
  by (relation "measure (\<lambda>(n, xs). length xs)") auto

definition assign_chunk :: "'db orm \<Rightarrow> nat list \<Rightarrow> 'db env \<Rightarrow> 'db env" where
  "assign_chunk fw moves_chunk e =
     \<lparr>database = action_assign fw moves_chunk (database e),
      calls = calls e @ [Action_assign moves_chunk]\<rparr>"

definition assign_replenishment_moves :: "'db orm \<Rightarrow> orderpoint list \<Rightarrow> 'db env \<Rightarrow> 'db env" where
  "assign_replenishment_moves fw self e =
     (let domain = prepare_to_assign_replenishment_move_domain self;
          moves_to_assign = search_moves fw (database e) domain ''priority desc, date asc, id asc''
      in fold (assign_chunk fw) (split_every 100 moves_to_assign) e)"

definition after_replenishment :: "'db orm \<Rightarrow> orderpoint list \<Rightarrow> 'db env \<Rightarrow> 'db env" where
  "after_replenishment fw self e = assign_replenishment_moves fw self e"

definition run_replenishment ::
  "'db orm \<Rightarrow> orderpoint list \<Rightarrow> product list \<Rightarrow> 'db env \<Rightarrow> error + 'db env" where
  "run_replenishment fw self products e =
     (case prepare_procurements fw (database e) self products of
        Inl err \<Rightarrow> Inl err
      | Inr procurements \<Rightarrow>
          if procurements = [] then Inr e
          else Inr (after_replenishment fw self
                      \<lparr>database = procurement_run fw procurements (database e),
                       calls = calls e @ [Procurement_run procurements]\<rparr>))"

text \<open>An empty \<open>location_field\<close> stands for \<^verbatim>\<open>False\<close>.\<close>

definition prepare_orderpoint_domain_location :: "location list \<Rightarrow> string \<Rightarrow> domain" where
  "prepare_orderpoint_domain_location location_ids location_field =
     (let ids = location_ids;
          location_field' = (if location_field = [] then ''location_id'' else location_field)
      in Term location_field' ''parent_of'' (Ids ids))"

definition prepare_orderpoint_domain :: "string \<Rightarrow> location list \<Rightarrow> string \<Rightarrow> domain" where
  "prepare_orderpoint_domain trig locations location_field =
     (let domain = Term ''trigger'' ''='' (Str trig)
      in if locations \<noteq> []
         then And_domain [domain, prepare_orderpoint_domain_location locations location_field]
         else domain)"

definition get_orderpoints ::
  "'db orm \<Rightarrow> 'db \<Rightarrow> string \<Rightarrow> location list \<Rightarrow> string \<Rightarrow> orderpoint list" where
  "get_orderpoints fw db trig locations location_field =
     search_orderpoints fw db (prepare_orderpoint_domain trig locations location_field)"

definition run_auto_replenishment ::
  "'db orm \<Rightarrow> product list \<Rightarrow> location list \<Rightarrow> string \<Rightarrow> 'db env \<Rightarrow> error + 'db env" where
  "run_auto_replenishment fw products locations location_field e =
     (if locations = [] \<or> products = [] then Inr e
      else run_replenishment fw
             (get_orderpoints fw (database e) ''auto'' locations location_field) products e)"

definition run_cron_replenishment ::
  "'db orm \<Rightarrow> location list \<Rightarrow> 'db env \<Rightarrow> error + 'db env" where
  "run_cron_replenishment fw location_ids e =
     run_replenishment fw (get_orderpoints fw (database e) ''cron'' location_ids []) [] e"

section \<open>The fill-up formula as the specification words it\<close>

text \<open>The specification's wording of the fill-up quantity: the target stock level minus
  the quantity already replenished minus the quantity available at the source location,
  clamped to zero.\<close>

definition spec_fill_up_formula :: "rat \<Rightarrow> rat \<Rightarrow> rat \<Rightarrow> rat" where
  "spec_fill_up_formula target_stock_level already_replenished available_at_source =
     max 0 (target_stock_level - already_replenished - available_at_source)"

section \<open>Example data\<close>

definition shoes :: product where
  "shoes = \<lparr>product_id = 1, uom_rounding = 1 / 100\<rparr>"

definition stock_route :: route where
  "stock_route =
     \<lparr>route_display_name = ''Replenish'',
      rule_ids = [\<lparr>rule_id = 1, rule_location_id = 10\<rparr>]\<rparr>"

definition other_route :: route where
  "other_route =
     \<lparr>route_display_name = ''Elsewhere'',
      rule_ids = [\<lparr>rule_id = 2, rule_location_id = 30\<rparr>]\<rparr>"

text \<open>A fill-up orderpoint that replenishes location 10 from location 20.\<close>

definition orderpoint_A :: orderpoint where
  "orderpoint_A =
     \<lparr>orderpoint_id = 1, name = ''OP/1'', company_id = 1, location_id = 10,
      trigger = ''auto'', replenish_method = ''fill_up'', sequence = 10,
      route_id = Some stock_route, group_id = None, location_src_id = Some 20,
      priority = ''0''\<rparr>"

text \<open>A second orderpoint on location 10, with source location 21.\<close>

definition orderpoint_B :: orderpoint where
  "orderpoint_B =
     orderpoint_A\<lparr>orderpoint_id := 2, name := ''OP/2'', sequence := 20,
                   location_src_id := Some 21\<rparr>"


text \<open>Forecast \<open>vd\<close> at the destination 10; forecast \<open>vs\<close> with \<open>inc\<close> incoming at
  the source 20.\<close>

definition quantities :: "rat \<Rightarrow> rat \<Rightarrow> rat \<Rightarrow> qties_on_locations" where
  "quantities vd vs inc =
     [10 \<mapsto> [shoes \<mapsto> \<lparr>virtual_available = vd, incoming_qty = 0\<rparr>],
      20 \<mapsto> [shoes \<mapsto> \<lparr>virtual_available = vs, incoming_qty = inc\<rparr>]]"

text \<open>The framework's answer for the forecast at each location: 5 missing at location 10,
  3 available at location 20 and 4 at location 21.\<close>

definition stock_levels :: "location \<Rightarrow> product \<Rightarrow> qties" where
  "stock_levels loc p =
     (if loc = 10 then \<lparr>virtual_available = - 5, incoming_qty = 0\<rparr>
      else if loc = 20 then \<lparr>virtual_available = 3, incoming_qty = 0\<rparr>
      else \<lparr>virtual_available = 6, incoming_qty = 2\<rparr>)"



definition waiting_moves :: moves_by_location where
  "waiting_moves = [(10, [\<lparr>move_id = 1, move_product_id = shoes\<rparr>])]"

text \<open>A warehouse in which nothing is missing, and a framework whose database is the
  forecast at each location: it finds the two orderpoints and the waiting move, and one
  replenishment move to assign.\<close>

definition full_levels :: "location \<Rightarrow> product \<Rightarrow> qties" where
  "full_levels loc p = \<lparr>virtual_available = 4, incoming_qty = 0\<rparr>"

definition example_orm :: "(location \<Rightarrow> product \<Rightarrow> qties) orm" where
  "example_orm =
     \<lparr>search_orderpoints = (\<lambda>db dom. [orderpoint_A, orderpoint_B]),
      read_group_moves = (\<lambda>db dom. waiting_moves),
      search_moves = (\<lambda>db dom ord. [7]),
      product_available = (\<lambda>db. db),
      sorted_orderpoints = (\<lambda>self. self),
      closest_warehouse = (\<lambda>db loc. Some 1),
      replenishment_date = (\<lambda>db moves p. None),
      datetime_now = (\<lambda>db. 0),
      procurement_run = (\<lambda>procurements db. db),
      action_assign = (\<lambda>ids db. db)\<rparr>"

section \<open>The sign of a float comparison with zero\<close>

lemma floor_half: "\<lfloor>(1::rat) / 2\<rfloor> = 0"
  by (simp add: floor_eq_iff)

lemma round_half_away_pos_iff: "0 < round_half_away x \<longleftrightarrow> 1 / 2 \<le> x"
proof (cases "x < 0")
  case True
  then have "0 \<le> \<lfloor>- x + 1 / 2\<rfloor>" by (simp add: zero_le_floor)
  with True show ?thesis by (simp add: round_half_away_def)
next
  case False
  have "0 < \<lfloor>x + 1 / 2\<rfloor> \<longleftrightarrow> 1 \<le> x + 1 / 2"
    by (simp add: zero_less_floor)
  also have "\<dots> \<longleftrightarrow> 1 / 2 \<le> x" by linarith
  finally show ?thesis using False by (simp add: round_half_away_def)
qed

lemma round_half_away_minus: "round_half_away (- x) = - round_half_away x"
proof (cases "x = 0")
  case True
  then show ?thesis by (simp add: round_half_away_def floor_half)
next
  case False
  then show ?thesis by (auto simp: round_half_away_def)
qed

lemma round_half_away_neg_iff: "round_half_away x < 0 \<longleftrightarrow> x \<le> - (1 / 2)"
proof -
  have "round_half_away x < 0 \<longleftrightarrow> 0 < round_half_away (- x)"
    by (simp add: round_half_away_minus)
  also have "\<dots> \<longleftrightarrow> 1 / 2 \<le> - x" by (rule round_half_away_pos_iff)
  also have "\<dots> \<longleftrightarrow> x \<le> - (1 / 2)" by linarith
  finally show ?thesis .
qed

lemma round_half_away_of_int: "round_half_away (of_int k) = k"
proof -
  have a: "\<lfloor>of_int k + (1::rat) / 2\<rfloor> = k" by (simp add: floor_eq_iff)
  have b: "\<lfloor>- of_int k + (1::rat) / 2\<rfloor> = - k"
    using floor_eq_iff [of "- of_int k + (1::rat) / 2" "- k"] by simp
  show ?thesis by (simp add: round_half_away_def a b floor_half)
qed

lemma float_round_multiple: "float_round (of_int k * r) r = of_int k * r"
  by (simp add: float_round_def round_half_away_of_int)

text \<open>With a positive rounding, comparing with zero gives the sign of the rounded
  quotient.\<close>

lemma float_compare_zero:
  assumes "0 < r"
  shows "float_compare v 0 r = sgn (round_half_away (v / r))"
proof -
  define k where "k = round_half_away (v / r)"
  have fr: "float_round v r = of_int k * r"
    using assms by (auto simp: float_round_def k_def round_half_away_def floor_half)
  have z: "float_round 0 r = 0" by (simp add: float_round_def)
  have iz: "float_is_zero (of_int k * r) r \<longleftrightarrow> k = 0"
  proof -
    have "\<bar>of_int k * r\<bar> < r \<longleftrightarrow> \<bar>of_int k :: rat\<bar> * r < 1 * r"
      using assms by (simp add: abs_mult)
    also have "\<dots> \<longleftrightarrow> \<bar>of_int k :: rat\<bar> < 1"
      using assms by (simp only: mult_less_cancel_right_pos)
    also have "\<dots> \<longleftrightarrow> \<bar>k\<bar> < 1"
      by (simp only: of_int_abs [symmetric] of_int_less_1_iff)
    also have "\<dots> \<longleftrightarrow> k = 0" by linarith
    finally show ?thesis by (simp add: float_is_zero_def float_round_multiple)
  qed
  have neg: "of_int k * r < 0 \<longleftrightarrow> k < 0"
    using assms by (simp add: mult_less_0_iff)
  show ?thesis
    unfolding float_compare_def Let_def fr z k_def [symmetric]
    by (simp add: iz neg sgn_if)
qed

lemma float_compare_pos_iff:
  "0 < r \<Longrightarrow> 0 < float_compare v 0 r \<longleftrightarrow> r / 2 \<le> v"
  by (simp add: float_compare_zero round_half_away_pos_iff pos_le_divide_eq)

lemma float_compare_neg_iff:
  "0 < r \<Longrightarrow> float_compare v 0 r < 0 \<longleftrightarrow> v \<le> - (r / 2)"
  by (simp add: float_compare_zero round_half_away_neg_iff pos_divide_le_eq)

section \<open>Whole numbers are floats\<close>

text \<open>The floats that Python prints as \<^verbatim>\<open>0.1\<close> and \<^verbatim>\<open>0.3\<close>, with the numerator and
  denominator that \<^verbatim>\<open>as_integer_ratio\<close> gives; a tie goes to the even neighbour.\<close>

lemma double_examples:
  "double (1 / 10) = 3602879701896397 / 36028797018963968"
  "double (3 / 10) = 5404319552844595 / 18014398509481984"
  "double (2 ^ 53 + 1) = 2 ^ 53"
  "double (2 ^ 53 + 3) = 2 ^ 53 + 4"
  by code_simp+

lemma round_half_even_of_int: "round_half_even (of_int k) = k"
  by (simp add: round_half_even_def)

lemma exponent_of_int:
  assumes "n \<noteq> 0" and "\<bar>n\<bar> < 2 ^ 53"
  shows "exponent (of_int n) \<le> 52"
proof -
  have one: "1 \<le> \<bar>of_int n :: rat\<bar>"
    using assms(1) by (simp flip: of_int_abs)
  have "\<lfloor>\<bar>of_int n :: rat\<bar>\<rfloor> = \<bar>n\<bar>"
    by (simp flip: of_int_abs)
  with one have "exponent (of_int n) = bitlen \<bar>n\<bar> - 1"
    by (simp add: exponent_def)
  moreover have "bitlen \<bar>n\<bar> \<le> 53"
    using assms(2) by (simp add: bitlen_le_iff_power)
  ultimately show ?thesis by simp
qed

lemma double_of_int:
  assumes "\<bar>n\<bar> < 2 ^ 53"
  shows "double (of_int n) = of_int n"
proof (cases "n = 0")
  case True
  then show ?thesis by (simp add: double_def)
next
  case False
  define e where "e = exponent (of_int n) - 52"
  from exponent_of_int [OF False assms] have e: "e \<le> 0" by (simp add: e_def)
  show ?thesis
  proof (cases "e = 0")
    case True
    with False show ?thesis
      by (simp add: double_def e_def [symmetric] round_half_even_of_int)
  next
    case nz: False
    have "(of_int n :: rat) * 2 ^ nat (- e) = of_int (n * 2 ^ nat (- e))" by simp
    then have "round_half_even (of_int n * 2 ^ nat (- e)) = n * 2 ^ nat (- e)"
      by (simp only: round_half_even_of_int)
    with False e nz show ?thesis
      by (simp add: double_def e_def [symmetric])
  qed
qed

lemma double_Ints:
  assumes "x \<in> \<int>" and "\<bar>x\<bar> < 2 ^ 53"
  shows "double x = x"
proof -
  from assms(1) obtain n where x: "x = of_int n" by (auto elim: Ints_cases)
  with assms(2) have "\<bar>of_int n :: rat\<bar> < of_int (2 ^ 53)" by simp
  then have "\<bar>n\<bar> < 2 ^ 53" by (simp only: of_int_abs [symmetric] of_int_less_iff)
  then show ?thesis by (simp add: x double_of_int)
qed

section \<open>Quantities on a binary grid are floats\<close>



section \<open>The quantity of one orderpoint and one product\<close>

text \<open>
  C4. When the forecast quantity of a product at the destination location of an
  orderpoint is greater than or equal to zero, the quantity to replenish is zero.
\<close>

theorem fill_up_zero_without_demand:
  assumes "lookup_qties qties_on_locations (location_id self) p = Inr qties_on_dest"
    and "0 \<le> virtual_available qties_on_dest"
    and "0 < uom_rounding p"
  shows "get_qty_to_replenish_fill_up self p qties_on_locations qty_already_replenished = Inr 0
    \<and> get_qty_to_replenish self p qties_on_locations qty_already_replenished = Inr 0"
proof -
  have "\<not> float_compare (virtual_available qties_on_dest) 0 (uom_rounding p) < 0"
    using assms(2,3) by (simp add: float_compare_neg_iff)
  then have "get_qty_to_replenish_fill_up self p qties_on_locations qty_already_replenished = Inr 0"
    using assms(1) by (simp add: get_qty_to_replenish_fill_up_def split: option.split)
  then show ?thesis by (simp add: get_qty_to_replenish_def)
qed

theorem fill_up_zero_without_demand_witness:
  "get_qty_to_replenish_fill_up orderpoint_A shoes (quantities 2 3 0) 0 = Inr 0
   \<and> get_qty_to_replenish orderpoint_A shoes (quantities 2 3 0) 0 = Inr 0"
proof -
  have l: "lookup_qties (quantities 2 3 0) (location_id orderpoint_A) shoes
      = Inr \<lparr>virtual_available = 2, incoming_qty = 0\<rparr>"
    by (simp add: lookup_qties_def quantities_def orderpoint_A_def)
  have v: "0 \<le> virtual_available \<lparr>virtual_available = 2, incoming_qty = 0\<rparr>" by simp
  have r: "0 < uom_rounding shoes" by (simp add: shoes_def)
  show ?thesis using fill_up_zero_without_demand [OF l v r, of 0] .
qed

text \<open>
  C1, amended. For a fill-up orderpoint with a source location and a product with a
  positive rounding, the quantity to replenish is the smaller of the deficit at the
  destination (the absolute value of its negative forecast) minus the quantity already
  replenished, and the quantity available at the source (forecast minus incoming), both
  differences as the float subtraction gives them, when the float comparison at the
  product's rounding finds the destination forecast negative and the source availability
  positive; it is zero otherwise.
\<close>

theorem fill_up_quantity:
  assumes "location_src_id self = Some src"
    and "lookup_qties qties_on_locations (location_id self) p = Inr qties_on_dest"
    and "lookup_qties qties_on_locations src p = Inr qties_on_src"
    and "0 < uom_rounding p"
  shows "get_qty_to_replenish_fill_up self p qties_on_locations qty_already_replenished =
    Inr (if float_compare (virtual_available qties_on_dest) 0 (uom_rounding p) < 0
            \<and> 0 < float_compare
                    (float_sub (virtual_available qties_on_src) (incoming_qty qties_on_src))
                    0 (uom_rounding p)
         then min (float_sub (- virtual_available qties_on_dest) qty_already_replenished)
                (float_sub (virtual_available qties_on_src) (incoming_qty qties_on_src))
         else 0)"
proof -
  let ?r = "uom_rounding p"
  let ?vd = "virtual_available qties_on_dest"
  have "float_compare ?vd 0 ?r < 0 \<Longrightarrow> ?vd \<le> - (?r / 2)"
    using float_compare_neg_iff [OF assms(4), of ?vd] by simp
  then have a: "float_compare ?vd 0 ?r < 0 \<Longrightarrow> \<bar>?vd\<bar> = - ?vd"
    using assms(4) by fastforce
  show ?thesis
    using assms(1-3) a by (auto simp: get_qty_to_replenish_fill_up_def Let_def)
qed

theorem fill_up_quantity_witness:
  "get_qty_to_replenish_fill_up orderpoint_A shoes (quantities (- 5) 3 0) 1 = Inr 3
   \<and> get_qty_to_replenish_fill_up orderpoint_A shoes (quantities (- 5) 7 0) 1 = Inr 4"
proof -
  have s: "location_src_id orderpoint_A = Some 20" by (simp add: orderpoint_A_def)
  have d: "lookup_qties (quantities (- 5) v 0) (location_id orderpoint_A) shoes
      = Inr \<lparr>virtual_available = - 5, incoming_qty = 0\<rparr>" for v
    by (simp add: lookup_qties_def quantities_def orderpoint_A_def)
  have l: "lookup_qties (quantities (- 5) v 0) 20 shoes
      = Inr \<lparr>virtual_available = v, incoming_qty = 0\<rparr>" for v
    by (simp add: lookup_qties_def quantities_def)
  have r: "0 < uom_rounding shoes" by (simp add: shoes_def)
  have c: "float_compare (- 5) 0 (uom_rounding shoes) < 0"
    "0 < float_compare 3 0 (uom_rounding shoes)" "0 < float_compare 7 0 (uom_rounding shoes)"
    by code_simp+
  have f: "float_sub 5 1 = 4" "float_sub 3 0 = 3" "float_sub 7 0 = 7"
    by code_simp+
  show ?thesis
    using fill_up_quantity [OF s d l r, of 3 1] fill_up_quantity [OF s d l r, of 7 1]
    by (simp add: c f)
qed

text \<open>C1 as stated fails. The specification's formula subtracts the quantity available at
  the source; the code takes the minimum with it. With 5 missing at the destination and
  nothing yet replenished, a source holding 3 gives 3 and a source holding 1 gives 1, where
  the formula gives 2 and 4 for the target 5, and 0 for the target 0.\<close>

theorem fill_up_formula_counterexample:
  "get_qty_to_replenish_fill_up orderpoint_A shoes (quantities (- 5) 3 0) 0 = Inr 3
   \<and> get_qty_to_replenish_fill_up orderpoint_A shoes (quantities (- 5) 3 0) 0
       \<noteq> Inr (spec_fill_up_formula 5 0 3)
   \<and> get_qty_to_replenish_fill_up orderpoint_A shoes (quantities (- 5) 3 0) 0
       \<noteq> Inr (spec_fill_up_formula 0 0 3)
   \<and> spec_fill_up_formula 5 0 3 = 2
   \<and> spec_fill_up_formula 0 0 3 = 0
   \<and> get_qty_to_replenish_fill_up orderpoint_A shoes (quantities (- 5) 1 0) 0 = Inr 1
   \<and> spec_fill_up_formula 5 0 1 = 4"
  by code_simp

text \<open>
  C3, amended. For a fill-up orderpoint with a source location, the quantity returned
  never exceeds the larger of zero and the supply available at the source location
  (forecast minus incoming quantity there, as the float subtraction gives it); and for a
  product with a positive rounding it is zero when that supply is zero or negative.
\<close>

theorem fill_up_at_most_supply:
  assumes "location_src_id self = Some src"
    and "lookup_qties qties_on_locations src p = Inr qties_on_src"
    and "get_qty_to_replenish_fill_up self p qties_on_locations qty_already_replenished = Inr q"
  shows "q \<le> max 0 (float_sub (virtual_available qties_on_src) (incoming_qty qties_on_src))
    \<and> (0 < uom_rounding p \<longrightarrow>
         float_sub (virtual_available qties_on_src) (incoming_qty qties_on_src) \<le> 0 \<longrightarrow> q = 0)"
proof -
  let ?s = "float_sub (virtual_available qties_on_src) (incoming_qty qties_on_src)"
  have bound: "q \<le> max 0 ?s"
    using assms
    by (auto simp: get_qty_to_replenish_fill_up_def Let_def split: sum.splits if_splits)
  have zero: "q = 0" if r: "0 < uom_rounding p" and s: "?s \<le> 0"
  proof -
    from r s have "\<not> uom_rounding p / 2 \<le> ?s" by simp
    then have "float_compare ?s 0 (uom_rounding p) \<le> 0"
      using float_compare_pos_iff [OF r, of ?s] by simp
    with assms show ?thesis
      by (auto simp: get_qty_to_replenish_fill_up_def Let_def split: sum.splits if_splits)
  qed
  from bound zero show ?thesis by blast
qed

theorem fill_up_at_most_supply_witness:
  "get_qty_to_replenish_fill_up orderpoint_A shoes (quantities (- 5) 3 0) 0 = Inr 3
   \<and> (3::rat) \<le> max 0 (float_sub 3 0)
   \<and> get_qty_to_replenish_fill_up orderpoint_A shoes (quantities (- 5) (- 2) 0) 0 = Inr 0
   \<and> float_sub (- 2) 0 = - 2"
proof -
  have s: "location_src_id orderpoint_A = Some 20" by (simp add: orderpoint_A_def)
  have l: "lookup_qties (quantities (- 5) v 0) 20 shoes
      = Inr \<lparr>virtual_available = v, incoming_qty = 0\<rparr>" for v
    by (simp add: lookup_qties_def quantities_def)
  have r: "0 < uom_rounding shoes" by (simp add: shoes_def)
  have g: "get_qty_to_replenish_fill_up orderpoint_A shoes (quantities (- 5) 3 0) 0 = Inr 3"
    by code_simp
  have f: "float_sub (- 2) 0 = - 2" by code_simp
  have z: "get_qty_to_replenish_fill_up orderpoint_A shoes (quantities (- 5) (- 2) 0) 0 = Inr 0"
    by code_simp
  from fill_up_at_most_supply [OF s l g] have a: "(3::rat) \<le> max 0 (float_sub 3 0)"
    by simp
  from fill_up_at_most_supply [OF s l z] r f have b: "(0::rat) = 0 \<and> float_sub (- 2) 0 = - 2"
    by simp
  from g a z b show ?thesis by (intro conjI) simp_all
qed

text \<open>C3 as stated fails. With a negative supply at the source (more going out than on
  hand) the quantity is zero, which exceeds the supply.\<close>

theorem fill_up_exceeds_negative_supply_counterexample:
  "location_src_id orderpoint_A = Some 20
   \<and> lookup_qties (quantities (- 3) (- 5) 0) 20 shoes
       = Inr \<lparr>virtual_available = - 5, incoming_qty = 0\<rparr>
   \<and> get_qty_to_replenish_fill_up orderpoint_A shoes (quantities (- 3) (- 5) 0) 0 = Inr 0
   \<and> float_sub (- 5) 0 = - 5
   \<and> (0::rat) > - 5"
  by code_simp

section \<open>The loop keeps its invariant\<close>

lemma fold_map_upd:
  "fold (\<lambda>p m. m(p \<mapsto> f p)) ps m0 = (\<lambda>p. if p \<in> set ps then Some (f p) else m0 p)"
  by (induction ps arbitrary: m0) (auto simp: fun_eq_iff)

lemma compute_quantities_fold:
  assumes "loc \<in> set locs \<or> (\<exists>m. acc loc = Some m \<and> (\<forall>p\<in>set ps. m p = Some (pa loc p)))"
  shows "\<exists>m. fold (\<lambda>location qties.
             let qties_on_location =
                   (case qties location of None \<Rightarrow> Map.empty | Some on_location \<Rightarrow> on_location)
             in qties(location \<mapsto>
                  fold (\<lambda>p on_location. on_location(p \<mapsto> pa location p))
                    ps qties_on_location)) locs acc loc = Some m
           \<and> (\<forall>p\<in>set ps. m p = Some (pa loc p))"
  using assms
proof (induction locs arbitrary: acc)
  case Nil
  then show ?case by simp
next
  case (Cons a locs)
  show ?case
  proof (cases "loc = a")
    case True
    show ?thesis
      unfolding fold_simps
      by (rule Cons.IH) (simp add: True Let_def fold_map_upd)
  next
    case False
    with Cons.prems show ?thesis
      unfolding fold_simps
      by (intro Cons.IH) (auto simp: Let_def)
  qed
qed

lemma compute_quantities_dict_lookup:
  assumes "loc \<in> set locs" and "p \<in> set ps"
  shows "lookup_qties (compute_quantities_dict pa locs ps) loc p = Inr (pa loc p)"
proof -
  from compute_quantities_fold [of loc locs Map.empty ps pa] assms(1)
  obtain m where "compute_quantities_dict pa locs ps loc = Some m"
    and "\<forall>p\<in>set ps. m p = Some (pa loc p)"
    unfolding compute_quantities_dict_def by blast
  with assms(2) show ?thesis by (simp add: lookup_qties_def)
qed

lemma run_iterations_append:
  "run_iterations qol (xs @ ys) st =
     (case run_iterations qol xs st of Inl e \<Rightarrow> Inl e | Inr st' \<Rightarrow> run_iterations qol ys st')"
  by (induction xs arbitrary: st) (auto split: sum.splits)

lemma product_loop_iterations:
  "product_loop qol ordp ps st = run_iterations qol (map (Pair ordp) ps) st"
  by (induction ps arbitrary: st) (auto split: sum.splits)

lemma orderpoint_loop_iterations:
  "orderpoint_loop qol mbl self st = run_iterations qol (iterations mbl self) st"
proof (induction self arbitrary: st)
  case Nil
  then show ?case by (simp add: iterations_def)
next
  case (Cons ordp rest)
  have it: "iterations mbl (ordp # rest) =
      (case map_of mbl (location_id ordp) of
         None \<Rightarrow> [] | Some moves \<Rightarrow> map (Pair ordp) (products_of moves)) @ iterations mbl rest"
    by (simp add: iterations_def)
  show ?case
    unfolding it
    by (simp add: run_iterations_append product_loop_iterations Cons.IH
        split: option.split sum.split)
qed

lemma iterations_mem:
  assumes "(ordp, p) \<in> set (iterations mbl self)"
  shows "ordp \<in> set self
    \<and> (\<exists>moves. map_of mbl (location_id ordp) = Some moves \<and> p \<in> set (products_of moves))"
proof -
  from assms obtain o' where o': "o' \<in> set self"
    and mem: "(ordp, p) \<in> set (case map_of mbl (location_id o') of
                 None \<Rightarrow> [] | Some moves \<Rightarrow> map (Pair o') (products_of moves))"
    by (auto simp: iterations_def)
  show ?thesis
  proof (cases "map_of mbl (location_id o')")
    case None
    with mem show ?thesis by simp
  next
    case (Some moves)
    with mem have "ordp = o'" and "p \<in> set (products_of moves)" by auto
    with o' Some show ?thesis by simp
  qed
qed

lemma iterations_covered:
  assumes "(ordp, p) \<in> set (iterations mbl self)"
    and "\<forall>(loc, moves) \<in> set mbl. \<forall>m \<in> set moves. 0 < uom_rounding (move_product_id m)"
  shows "covered (quantities_for pa self mbl) pa ordp p"
proof -
  from iterations_mem [OF assms(1)] obtain moves where o: "ordp \<in> set self"
    and m: "map_of mbl (location_id ordp) = Some moves" and p: "p \<in> set (products_of moves)"
    by blast
  from m have mem: "(location_id ordp, moves) \<in> set mbl" by (rule map_of_SomeD)
  from p obtain mv where mv: "mv \<in> set moves" "p = move_product_id mv"
    by (auto simp: products_of_def)
  with assms(2) mem have r: "0 < uom_rounding p" by auto
  from mem p have ps: "p \<in> set (all_products mbl)"
    by (auto simp: all_products_def)
  from o have d: "location_id ordp \<in> set (locations_of self)"
    by (simp add: locations_of_def)
  have s: "src \<in> set (locations_of self)" if "location_src_id ordp = Some src" for src
  proof -
    from o that have "src \<in> set (List.map_filter location_src_id self)"
      by (force simp: List.map_filter_def)
    then show ?thesis by (simp add: locations_of_def)
  qed
  show ?thesis
    unfolding covered_def quantities_for_def
    using r by (auto simp: compute_quantities_dict_lookup d s ps split: option.split)
qed



















section \<open>Orderpoints that replenish nothing\<close>

lemma get_qty_to_replenish_zero:
  "location_src_id self = None \<or> replenish_method self \<noteq> ''fill_up''
     \<Longrightarrow> get_qty_to_replenish self p qol already = Inr 0"
  by (auto simp: get_qty_to_replenish_def get_qty_to_replenish_fill_up_def)

text \<open>Without a route the computed source location is unset.\<close>

lemma compute_location_src_id_no_route:
  assumes "route_id ordp = None"
  shows "location_src_id (compute_location_src_id get_source_location_from_route ordp) = None"
    and "get_qty_to_replenish (compute_location_src_id get_source_location_from_route ordp)
           p qol already = Inr 0"
proof -
  show n: "location_src_id (compute_location_src_id get_source_location_from_route ordp) = None"
    using assms by (simp add: compute_location_src_id_def)
  show "get_qty_to_replenish (compute_location_src_id get_source_location_from_route ordp)
           p qol already = Inr 0"
    using n by (simp add: get_qty_to_replenish_zero)
qed

lemma replenish_product_skip:
  assumes "location_src_id self = None \<or> replenish_method self \<noteq> ''fill_up''"
    and "0 < uom_rounding p"
  shows "replenish_product qol self p st = Inr st"
proof -
  have "\<not> 0 < float_compare 0 0 (uom_rounding p)"
    using assms(2) by (simp add: float_compare_pos_iff)
  then show ?thesis
    by (simp add: replenish_product_def get_qty_to_replenish_zero [OF assms(1)])
qed

lemma append_to_keys: "fst ` set (append_to k v al) = insert k (fst ` set al)"
proof (induction al)
  case Nil
  then show ?case by simp
next
  case (Cons entry al)
  obtain k0 vs0 where entry: "entry = (k0, vs0)" by (cases entry)
  show ?case
  proof (cases "k = k0")
    case True
    then show ?thesis by (simp add: entry)
  next
    case False
    then show ?thesis by (simp add: entry Cons.IH insert_commute)
  qed
qed

lemma replenish_product_keys:
  assumes "replenish_product qol ordp p st = Inr st'"
  shows "fst ` set (qties_to_replenish st') \<subseteq> insert ordp (fst ` set (qties_to_replenish st))"
proof -
  from assms obtain q
    where q: "get_qty_to_replenish ordp p qol (qties_replenished st (location_id ordp) p) = Inr q"
    by (auto simp: replenish_product_def split: sum.splits)
  show ?thesis
  proof (cases "0 < float_compare q 0 (uom_rounding p)")
    case True
    with assms q have "qties_to_replenish st' = append_to ordp (p, q) (qties_to_replenish st)"
      by (auto simp: replenish_product_def)
    then show ?thesis by (simp add: append_to_keys)
  next
    case False
    with assms q have "st' = st" by (simp add: replenish_product_def)
    then show ?thesis by auto
  qed
qed

lemma run_iterations_no_entry:
  assumes "location_src_id self = None \<or> replenish_method self \<noteq> ''fill_up''"
    and "\<forall>(ordp, p) \<in> set its. 0 < uom_rounding p"
    and "run_iterations qol its st = Inr st'"
    and "self \<notin> fst ` set (qties_to_replenish st)"
  shows "self \<notin> fst ` set (qties_to_replenish st')"
  using assms(2-4)
proof (induction its arbitrary: st)
  case Nil
  then show ?case by simp
next
  case (Cons it its)
  obtain ordp p where it: "it = (ordp, p)" by (cases it)
  from Cons.prems(2) it obtain st1 where s: "replenish_product qol ordp p st = Inr st1"
    and rest: "run_iterations qol its st1 = Inr st'"
    by (auto split: sum.splits)
  from Cons.prems(1) it have r: "0 < uom_rounding p" by simp
  have "self \<notin> fst ` set (qties_to_replenish st1)"
  proof (cases "ordp = self")
    case True
    with replenish_product_skip [OF assms(1) r, of qol st] s Cons.prems(3) show ?thesis by simp
  next
    case False
    with replenish_product_keys [OF s] Cons.prems(3) show ?thesis by auto
  qed
  moreover from Cons.prems(1) have "\<forall>(ordp, p) \<in> set its. 0 < uom_rounding p" by simp
  ultimately show ?case using Cons.IH rest by blast
qed

text \<open>
  C8. An orderpoint whose source location is unset, or whose replenish method is not
  \<^verbatim>\<open>fill_up\<close>, gets the quantity 0 for every product. So it generates no replenishment:
  for a product with a positive rounding the loop of \<^verbatim>\<open>_get_qties_to_replenish\<close> leaves its
  state as it was, and the result holds no entry for the orderpoint.
\<close>

theorem no_source_or_other_method_zero:
  assumes "location_src_id self = None \<or> replenish_method self \<noteq> ''fill_up''"
  shows "get_qty_to_replenish self p qties_on_locations qty_already_replenished = Inr 0
    \<and> (0 < uom_rounding p \<longrightarrow> replenish_product qties_on_locations self p st = Inr st)
    \<and> ((\<forall>(loc, moves) \<in> set mbl. \<forall>m \<in> set moves. 0 < uom_rounding (move_product_id m)) \<longrightarrow>
         (\<forall>res. get_qties_to_replenish pa orderpoints mbl = Inr res \<longrightarrow> self \<notin> fst ` set res))"
proof -
  have "self \<notin> fst ` set res"
    if r: "\<forall>(loc, moves) \<in> set mbl. \<forall>m \<in> set moves. 0 < uom_rounding (move_product_id m)"
      and res: "get_qties_to_replenish pa orderpoints mbl = Inr res" for res
  proof -
    let ?qol = "quantities_for pa orderpoints mbl"
    from res obtain st where st: "run_iterations ?qol (iterations mbl orderpoints) initial_state
        = Inr st" and eq: "res = qties_to_replenish st"
      by (auto simp: get_qties_to_replenish_def orderpoint_loop_iterations split: sum.splits)
    have pos: "\<forall>(ordp, p) \<in> set (iterations mbl orderpoints). 0 < uom_rounding p"
      using iterations_covered [OF _ r, of _ _ orderpoints pa] by (auto simp: covered_def)
    from run_iterations_no_entry [OF assms pos st] eq show ?thesis
      by (simp add: initial_state_def)
  qed
  then show ?thesis
    using get_qty_to_replenish_zero [OF assms] replenish_product_skip [OF assms] by blast
qed

theorem no_source_or_other_method_zero_witness:
  "get_qty_to_replenish (orderpoint_A\<lparr>location_src_id := None\<rparr>) shoes (quantities (- 5) 3 0) 0
     = Inr 0
   \<and> get_qty_to_replenish (orderpoint_A\<lparr>replenish_method := ''other''\<rparr>) shoes
       (quantities (- 5) 3 0) 0 = Inr 0
   \<and> replenish_product (quantities (- 5) 3 0) (orderpoint_A\<lparr>location_src_id := None\<rparr>) shoes
       initial_state = Inr initial_state
   \<and> get_qties_to_replenish stock_levels [orderpoint_A\<lparr>location_src_id := None\<rparr>, orderpoint_B]
       waiting_moves = Inr [(orderpoint_B, [(shoes, 4)])]
   \<and> orderpoint_A\<lparr>location_src_id := None\<rparr> \<notin> fst ` set [(orderpoint_B, [(shoes, 4::rat)])]"
proof -
  let ?A = "orderpoint_A\<lparr>location_src_id := None\<rparr>"
  let ?M = "orderpoint_A\<lparr>replenish_method := ''other''\<rparr>"
  have r: "0 < uom_rounding shoes" by (simp add: shoes_def)
  have h: "\<forall>(loc, moves) \<in> set waiting_moves.
             \<forall>m \<in> set moves. 0 < uom_rounding (move_product_id m)"
    by (simp add: waiting_moves_def shoes_def)
  have a: "location_src_id ?A = None \<or> replenish_method ?A \<noteq> ''fill_up''" by simp
  have b: "location_src_id ?M = None \<or> replenish_method ?M \<noteq> ''fill_up''" by simp
  have v: "get_qties_to_replenish stock_levels [?A, orderpoint_B] waiting_moves
      = Inr [(orderpoint_B, [(shoes, 4)])]"
    by code_simp
  show ?thesis
    using no_source_or_other_method_zero [OF a, of shoes "quantities (- 5) 3 0" 0 initial_state
        waiting_moves stock_levels "[?A, orderpoint_B]"]
      no_source_or_other_method_zero [OF b, of shoes "quantities (- 5) 3 0" 0 initial_state
        waiting_moves stock_levels "[?A, orderpoint_B]"]
      r h v
    by simp
qed

section \<open>The constraint passes or raises\<close>

lemma check_location_id_route_id_result:
  "check_location_id_route_id self = Inr () \<or>
   (\<exists>ordp r. ordp \<in> set self \<and> route_id ordp = Some r
      \<and> location_id ordp \<notin> rule_location_id ` set (rule_ids r)
      \<and> check_location_id_route_id self
          = Inl (ValidationError (route_display_name r) (location_id ordp)))"
  by (induction self) (auto split: option.split)

lemma check_location_id_route_id_passes:
  "check_location_id_route_id self = Inr () \<Longrightarrow> ordp \<in> set self \<Longrightarrow> route_id ordp = Some r
     \<Longrightarrow> location_id ordp \<in> rule_location_id ` set (rule_ids r)"
  by (induction self) (auto split: option.splits if_splits)

text \<open>
  C9. The check of a recordset of orderpoints passes exactly when every orderpoint either
  has no route or has a route with a rule whose destination location is the orderpoint's
  location; otherwise it raises a ValidationError, for an orderpoint whose route has no
  such rule.
\<close>

theorem check_location_id_route_id_iff:
  "(check_location_id_route_id self = Inr () \<longleftrightarrow>
      (\<forall>ordp \<in> set self. \<forall>r. route_id ordp = Some r \<longrightarrow>
         location_id ordp \<in> rule_location_id ` set (rule_ids r)))
   \<and> (check_location_id_route_id self \<noteq> Inr () \<longrightarrow>
        (\<exists>ordp r. ordp \<in> set self \<and> route_id ordp = Some r
           \<and> location_id ordp \<notin> rule_location_id ` set (rule_ids r)
           \<and> check_location_id_route_id self
               = Inl (ValidationError (route_display_name r) (location_id ordp))))"
proof -
  have "check_location_id_route_id self \<noteq> Inr ()"
    if "ordp \<in> set self" "route_id ordp = Some r"
      "location_id ordp \<notin> rule_location_id ` set (rule_ids r)" for ordp r
    using check_location_id_route_id_passes that by blast
  moreover note check_location_id_route_id_result [of self]
  ultimately show ?thesis by blast
qed

theorem check_location_id_route_id_iff_witness:
  "check_location_id_route_id [orderpoint_A] = Inr ()
   \<and> check_location_id_route_id [orderpoint_A\<lparr>route_id := None\<rparr>] = Inr ()
   \<and> check_location_id_route_id [orderpoint_A\<lparr>route_id := Some other_route\<rparr>]
       = Inl (ValidationError ''Elsewhere'' 10)"
proof -
  let ?bad = "orderpoint_A\<lparr>route_id := Some other_route\<rparr>"
  have a: "\<forall>ordp \<in> set [orderpoint_A]. \<forall>r. route_id ordp = Some r \<longrightarrow>
         location_id ordp \<in> rule_location_id ` set (rule_ids r)"
    by (simp add: orderpoint_A_def stock_route_def)
  have b: "\<forall>ordp \<in> set [orderpoint_A\<lparr>route_id := None\<rparr>]. \<forall>r. route_id ordp = Some r \<longrightarrow>
         location_id ordp \<in> rule_location_id ` set (rule_ids r)"
    by simp
  have c: "\<not> (\<forall>ordp \<in> set [?bad]. \<forall>r. route_id ordp = Some r \<longrightarrow>
         location_id ordp \<in> rule_location_id ` set (rule_ids r))"
    by (simp add: orderpoint_A_def other_route_def)
  from check_location_id_route_id_iff [of "[?bad]"] c
  have "\<exists>ordp r. ordp \<in> set [?bad] \<and> route_id ordp = Some r
      \<and> check_location_id_route_id [?bad]
          = Inl (ValidationError (route_display_name r) (location_id ordp))"
    by blast
  then have "check_location_id_route_id [?bad] = Inl (ValidationError ''Elsewhere'' 10)"
    by (simp add: orderpoint_A_def other_route_def)
  with check_location_id_route_id_iff [of "[orderpoint_A]"] a
    check_location_id_route_id_iff [of "[orderpoint_A\<lparr>route_id := None\<rparr>]"] b
  show ?thesis by blast
qed

section \<open>Runs that do nothing\<close>

text \<open>When something is missing the run calls the framework: the procurements are run,
  then the replenishment moves are assigned.\<close>

lemma run_replenishment_example:
  "(case run_replenishment example_orm [orderpoint_A, orderpoint_B] [shoes]
           \<lparr>database = stock_levels, calls = []\<rparr> of
      Inl err \<Rightarrow> []
    | Inr e \<Rightarrow> map (\<lambda>c. case c of Procurement_run procurements \<Rightarrow>
                                  Inl (map procurement_qty procurements)
                              | Action_assign ids \<Rightarrow> Inr ids) (calls e))
   = [Inl [3, 2], Inr [7]]"
  by code_simp

text \<open>
  C10. \<^verbatim>\<open>run_auto_replenishment\<close> leaves the database untouched and calls nothing when the
  products or the locations are empty, and \<^verbatim>\<open>run_replenishment\<close> does so when no
  procurement was prepared: neither the procurement run nor the assignment of moves takes
  place.
\<close>

theorem replenishment_no_op:
  "(locations = [] \<or> products = [] \<longrightarrow>
      run_auto_replenishment fw products locations location_field e = Inr e)
   \<and> (prepare_procurements fw (database e) self products = Inr [] \<longrightarrow>
        run_replenishment fw self products e = Inr e)"
  by (simp add: run_auto_replenishment_def run_replenishment_def)

theorem replenishment_no_op_witness:
  "run_auto_replenishment example_orm [] [10] [] \<lparr>database = stock_levels, calls = []\<rparr>
     = Inr \<lparr>database = stock_levels, calls = []\<rparr>
   \<and> run_auto_replenishment example_orm [shoes] [] [] \<lparr>database = stock_levels, calls = []\<rparr>
     = Inr \<lparr>database = stock_levels, calls = []\<rparr>
   \<and> run_replenishment example_orm [orderpoint_A, orderpoint_B] [shoes]
       \<lparr>database = full_levels, calls = []\<rparr>
     = Inr \<lparr>database = full_levels, calls = []\<rparr>"
proof -
  have p: "prepare_procurements example_orm
      (database \<lparr>database = full_levels, calls = []\<rparr>) [orderpoint_A, orderpoint_B] [shoes]
      = Inr []"
    by code_simp
  show ?thesis
    using replenishment_no_op [where locations = "[10]" and products = "[]"
          and fw = example_orm and location_field = "[]"
          and e = "\<lparr>database = stock_levels, calls = []\<rparr>"]
      replenishment_no_op [where locations = "[]" and products = "[shoes]"
          and fw = example_orm and location_field = "[]"
          and e = "\<lparr>database = stock_levels, calls = []\<rparr>"]
      replenishment_no_op [where products = "[shoes]" and fw = example_orm
          and e = "\<lparr>database = full_levels, calls = []\<rparr>"
          and self = "[orderpoint_A, orderpoint_B]"] p
    by simp
qed

end
